theory Spec2Isabelle
  imports Main "HOL-Library.Word"
begin

unbundle bit_operations_syntax

section \<open>Errors (libcerror)\<close>

text \<open>
  Every failing path of \<^verbatim>\<open>libevtx_record_values.c\<close> calls \<^verbatim>\<open>libcerror_error_set\<close> with an
  error domain, an error code and a message, and then returns -1. The model keeps the code
  (its prefix is the domain) and the message without the leading function name. An error
  is the list of the entries pushed by the functions of this file, oldest first.
\<close>

datatype libcerror_code =
    ARGUMENT_ERROR_INVALID_VALUE
  | ARGUMENT_ERROR_VALUE_EXCEEDS_MAXIMUM
  | ARGUMENT_ERROR_VALUE_OUT_OF_BOUNDS
  | RUNTIME_ERROR_VALUE_ALREADY_SET
  | RUNTIME_ERROR_VALUE_MISSING
  | RUNTIME_ERROR_VALUE_OUT_OF_BOUNDS
  | RUNTIME_ERROR_UNSUPPORTED_VALUE
  | RUNTIME_ERROR_GET_FAILED
  | RUNTIME_ERROR_COPY_FAILED
  | RUNTIME_ERROR_INITIALIZE_FAILED

type_synonym libcerror_error = "libcerror_code \<times> string"

section \<open>Typed values and the XML tree (libfvalue, libfwevt)\<close>

text \<open>
  Modelled from the spec: the typed value of libfvalue, a library whose sources are not
  among the source files of libevtx. Section 3 of the specification lists the value
  types; an integer value keeps its number, the other kinds keep their bytes.
\<close>

datatype libfvalue_value =
    VALUE_NULL
  | VALUE_INTEGER int
  | VALUE_STRING string
  | VALUE_BINARY "8 word list"

text \<open>
  Modelled from the spec: libfwevt's XML tag. An element has a name, an optional typed
  value, attributes (themselves tags, as \<^verbatim>\<open>libfwevt_xml_tag_t *qualifiers_xml_tag\<close> shows)
  and child elements, both in stream order. Names are kept as their UTF-8 bytes.
\<close>

datatype xml_tag =
  XML_Tag (tag_name: string) (tag_value: "libfvalue_value option")
    (tag_attributes: "xml_tag list") (tag_elements: "xml_tag list")

record xml_document =
  root_xml_tag :: "xml_tag option"

text \<open>
  Modelled from the spec: \<^verbatim>\<open>libfvalue_value_copy_to_32bit\<close>, the typed-value extraction
  coerced to 32 bits without a sign, failing on loss (section 4.3) and on a NULL value (an
  argument error, section 7). \<open>None\<close> stands for the return value -1, \<open>Some v\<close> for 1
  with \<open>v\<close> written to the output.
\<close>

definition libfvalue_value_copy_to_32bit :: "libfvalue_value option \<Rightarrow> 32 word option" where
  "libfvalue_value_copy_to_32bit value =
     (case value of
        Some (VALUE_INTEGER n) \<Rightarrow> if 0 \<le> n \<and> n < 2 ^ 32 then Some (word_of_int n) else None
      | _ \<Rightarrow> None)"

text \<open>
  Modelled from the spec: \<^verbatim>\<open>libfvalue_value_copy_to_8bit\<close>, the same extraction coerced to
  8 bits.
\<close>

definition libfvalue_value_copy_to_8bit :: "libfvalue_value option \<Rightarrow> 8 word option" where
  "libfvalue_value_copy_to_8bit value =
     (case value of
        Some (VALUE_INTEGER n) \<Rightarrow> if 0 \<le> n \<and> n < 2 ^ 8 then Some (word_of_int n) else None
      | _ \<Rightarrow> None)"

text \<open>
  The tree queries of libfwevt are not among the source files either. Section 4.3 of the
  specification names them: query by element name, by attribute name, enumeration of
  child elements with index access. Each returns the tri-valued result of section 6 with
  what it found: 1 found, 0 no such tag, -1 error. A NULL document or tag is an argument
  error (section 7). A query by name yields the first tag of that name. The callers in
  the source agree: they test a query by name for -1, for 0 and for anything else.

  Modelled from the spec: \<^verbatim>\<open>libfwevt_xml_document_get_root_xml_tag\<close>, the root element of
  a document.
\<close>

definition libfwevt_xml_document_get_root_xml_tag ::
  "xml_document option \<Rightarrow> int \<times> xml_tag option" where
  "libfwevt_xml_document_get_root_xml_tag document =
     (case document of None \<Rightarrow> (-1, None) | Some d \<Rightarrow> (1, root_xml_tag d))"

text \<open>
  Modelled from the spec: \<^verbatim>\<open>libfwevt_xml_tag_get_element_by_utf8_name\<close>, the query of a
  child element by its name.
\<close>

definition libfwevt_xml_tag_get_element_by_utf8_name ::
  "xml_tag option \<Rightarrow> string \<Rightarrow> int \<times> xml_tag option" where
  "libfwevt_xml_tag_get_element_by_utf8_name xml_tag utf8_string =
     (case xml_tag of
        None \<Rightarrow> (-1, None)
      | Some t \<Rightarrow>
          (case find (\<lambda>e. tag_name e = utf8_string) (tag_elements t) of
             None \<Rightarrow> (0, None)
           | Some e \<Rightarrow> (1, Some e)))"

text \<open>
  Modelled from the spec: \<^verbatim>\<open>libfwevt_xml_tag_get_attribute_by_utf8_name\<close>, the query of an
  attribute by its name.
\<close>

definition libfwevt_xml_tag_get_attribute_by_utf8_name ::
  "xml_tag option \<Rightarrow> string \<Rightarrow> int \<times> xml_tag option" where
  "libfwevt_xml_tag_get_attribute_by_utf8_name xml_tag utf8_string =
     (case xml_tag of
        None \<Rightarrow> (-1, None)
      | Some t \<Rightarrow>
          (case find (\<lambda>a. tag_name a = utf8_string) (tag_attributes t) of
             None \<Rightarrow> (0, None)
           | Some a \<Rightarrow> (1, Some a)))"

text \<open>
  Modelled from the spec: \<^verbatim>\<open>libfwevt_xml_tag_get_value\<close>, the handle of the typed value of
  a tag, NULL when the tag has no value.
\<close>

definition libfwevt_xml_tag_get_value ::
  "xml_tag option \<Rightarrow> int \<times> libfvalue_value option" where
  "libfwevt_xml_tag_get_value xml_tag =
     (case xml_tag of None \<Rightarrow> (-1, None) | Some t \<Rightarrow> (1, tag_value t))"

text \<open>
  Modelled from the spec: \<^verbatim>\<open>libfwevt_xml_tag_get_number_of_elements\<close>, the number of child
  elements.
\<close>

definition libfwevt_xml_tag_get_number_of_elements :: "xml_tag option \<Rightarrow> int \<times> int" where
  "libfwevt_xml_tag_get_number_of_elements xml_tag =
     (case xml_tag of None \<Rightarrow> (-1, 0) | Some t \<Rightarrow> (1, int (length (tag_elements t))))"

text \<open>
  Modelled from the spec: \<^verbatim>\<open>libfwevt_xml_tag_get_element_by_index\<close>, the child element at
  an index; an index out of range is an argument error.
\<close>

definition libfwevt_xml_tag_get_element_by_index ::
  "xml_tag option \<Rightarrow> int \<Rightarrow> int \<times> xml_tag option" where
  "libfwevt_xml_tag_get_element_by_index xml_tag element_index =
     (case xml_tag of
        None \<Rightarrow> (-1, None)
      | Some t \<Rightarrow>
          if 0 \<le> element_index \<and> element_index < int (length (tag_elements t))
          then (1, Some (tag_elements t ! nat element_index))
          else (-1, None))"

text \<open>
  Modelled from the spec: \<^verbatim>\<open>libfwevt_xml_tag_get_utf8_name_size\<close>, the size of the name in
  UTF-8, which counts the end-of-string character.
\<close>

definition libfwevt_xml_tag_get_utf8_name_size :: "xml_tag option \<Rightarrow> int \<times> nat" where
  "libfwevt_xml_tag_get_utf8_name_size xml_tag =
     (case xml_tag of None \<Rightarrow> (-1, 0) | Some t \<Rightarrow> (1, length (tag_name t) + 1))"

text \<open>
  Modelled from the spec: \<^verbatim>\<open>libfwevt_xml_tag_get_utf8_name\<close>, the name in UTF-8 copied to
  a buffer of the given size, which has to hold the end-of-string character too.
\<close>

definition libfwevt_xml_tag_get_utf8_name :: "xml_tag option \<Rightarrow> nat \<Rightarrow> int \<times> string" where
  "libfwevt_xml_tag_get_utf8_name xml_tag utf8_string_size =
     (case xml_tag of
        None \<Rightarrow> (-1, [])
      | Some t \<Rightarrow>
          if length (tag_name t) + 1 \<le> utf8_string_size then (1, tag_name t) else (-1, []))"

text \<open>
  Modelled from the spec: \<^verbatim>\<open>libcstring_narrow_string_compare\<close>, the comparison of the
  first \<open>n\<close> characters of two strings; the result is 0 when they agree (the caller does
  not use the sign of another result).
\<close>

definition libcstring_narrow_string_compare :: "string \<Rightarrow> string \<Rightarrow> nat \<Rightarrow> int" where
  "libcstring_narrow_string_compare string1 string2 n =
     (if take n string1 = take n string2 then 0 else 1)"

section \<open>Record values\<close>

text \<open>
  The \<^verbatim>\<open>libevtx_record_values_t\<close> structure, with the fields that the source reads and
  writes (\<open>identifier'\<close> is its field \<^verbatim>\<open>identifier\<close>). A pointer field is an option,
  \<open>None\<close> being NULL. The memoised handles point into the XML tree, which nothing
  mutates after decoding, so a handle is modelled by the value or tag it points to.
\<close>

record record_values =
  chunk_data_offset :: nat
  data_size :: "32 word"
  identifier' :: "64 word"
  written_time :: "64 word"
  xml_document :: "xml_document option"
  event_identifier_value :: "libfvalue_value option"
  level_value :: "libfvalue_value option"
  provider_name_value :: "libfvalue_value option"
  computer_value :: "libfvalue_value option"
  event_data_xml_tag :: "xml_tag option"
  event_data_type :: "8 word"
  binary_data_value :: "libfvalue_value option"

record io_handle =
  ascii_codepage :: int

text \<open>
  Modelled from the spec: the event data kind \<open>EventData\<close> (section 3), a constant of a
  header that is not among the source files.
\<close>

definition EVENT_DATA_TYPE_EVENT_DATA :: "8 word" where
  "EVENT_DATA_TYPE_EVENT_DATA = 1"

text \<open>
  Modelled from the spec: the event data kind \<open>UserData\<close>. Of the two constants the
  source uses only that they differ.
\<close>

definition EVENT_DATA_TYPE_USER_DATA :: "8 word" where
  "EVENT_DATA_TYPE_USER_DATA = 2"

text \<open>
  \<^verbatim>\<open>libevtx_record_values_initialize\<close>: the new record values are cleared with
  \<^verbatim>\<open>memory_set\<close>, so every number is 0 and every pointer NULL. Memory allocation is
  taken to succeed.
\<close>

definition cleared_record_values :: record_values where
  "cleared_record_values =
     \<lparr> chunk_data_offset = 0, data_size = 0, identifier' = 0, written_time = 0,
       xml_document = None, event_identifier_value = None, level_value = None,
       provider_name_value = None, computer_value = None, event_data_xml_tag = None,
       event_data_type = 0, binary_data_value = None \<rparr>"

definition libevtx_record_values_initialize ::
  "record_values option option \<Rightarrow>
     int \<times> libcerror_error list \<times> record_values option option" where
  "libevtx_record_values_initialize record_values =
     (case record_values of
        None \<Rightarrow> (-1, [(ARGUMENT_ERROR_INVALID_VALUE, ''invalid record values.'')], None)
      | Some (Some r) \<Rightarrow>
          (-1, [(RUNTIME_ERROR_VALUE_ALREADY_SET,
                 ''invalid record values value already set.'')], Some (Some r))
      | Some None \<Rightarrow> (1, [], Some (Some cleared_record_values)))"

subsection \<open>The record header\<close>

definition evtx_event_record_signature :: "8 word list" where
  "evtx_event_record_signature = [0x2a, 0x2a, 0x00, 0x00]"

text \<open>
  Modelled from the spec: the size of \<^verbatim>\<open>evtx_event_record_header_t\<close>, whose declaration
  is not among the source files. Section 3 gives the layout: signature (4 bytes, offset 0), size (4,
  offset 4), identifier (8, offset 8), written time (8, offset 16), hence 24 bytes.
\<close>

definition sizeof_evtx_event_record_header :: nat where
  "sizeof_evtx_event_record_header = 24"

text \<open>The largest \<^verbatim>\<open>ssize_t\<close>, for a 64-bit \<^verbatim>\<open>size_t\<close>.\<close>

definition SSIZE_MAX :: nat where
  "SSIZE_MAX = 2 ^ 63 - 1"

text \<open>
  Modelled from the spec: \<^verbatim>\<open>byte_stream_copy_to_uint32_little_endian\<close>, the little-endian
  read of 4 bytes (section 3): the last byte is taken first, and the value is shifted left
  by 8 before each further byte is or-ed in.
\<close>

definition byte_stream_copy_to_uint32_little_endian :: "8 word list \<Rightarrow> 32 word" where
  "byte_stream_copy_to_uint32_little_endian byte_stream =
     foldr (\<lambda>b v. push_bit 8 v OR ucast b) (take 4 byte_stream) 0"

text \<open>
  Modelled from the spec: \<^verbatim>\<open>byte_stream_copy_to_uint64_little_endian\<close>, the little-endian
  read of 8 bytes.
\<close>

definition byte_stream_copy_to_uint64_little_endian :: "8 word list \<Rightarrow> 64 word" where
  "byte_stream_copy_to_uint64_little_endian byte_stream =
     foldr (\<lambda>b v. push_bit 8 v OR ucast b) (take 8 byte_stream) 0"

text \<open>
  The copy of the size that the header reader loads from the last 4 bytes of the record:
  \<^verbatim>\<open>event_record_data[ data_size - 4 ]\<close> and the 3 bytes after it.
\<close>

definition copy_of_size_at :: "8 word list \<Rightarrow> nat \<Rightarrow> 32 word \<Rightarrow> 32 word" where
  "copy_of_size_at chunk chunk_data_offset' size' =
     byte_stream_copy_to_uint32_little_endian
       (drop (unat size' - 4) (drop chunk_data_offset' chunk))"

text \<open>
  \<^verbatim>\<open>libevtx_record_values_read_header\<close>. The chunk is a byte list whose length is
  \<^verbatim>\<open>chunk_data_size\<close>; \<open>event_record_data\<close> is the chunk from the offset on. The result is
  the return value, the error and the record values after the call. The copy of the size
  is read into a local variable and not used any further.
\<close>

definition libevtx_record_values_read_header ::
  "record_values option \<Rightarrow> io_handle option \<Rightarrow> 8 word list option \<Rightarrow> nat \<Rightarrow>
     int \<times> libcerror_error list \<times> record_values option" where
  "libevtx_record_values_read_header record_values io_handle chunk_data chunk_data_offset' =
     (case record_values of
        None \<Rightarrow> (-1, [(ARGUMENT_ERROR_INVALID_VALUE, ''invalid record values.'')], None)
      | Some rv \<Rightarrow>
     (case io_handle of
        None \<Rightarrow> (-1, [(ARGUMENT_ERROR_INVALID_VALUE, ''invalid IO handle.'')], Some rv)
      | Some _ \<Rightarrow>
     (case chunk_data of
        None \<Rightarrow> (-1, [(ARGUMENT_ERROR_INVALID_VALUE, ''invalid chunk data.'')], Some rv)
      | Some chunk \<Rightarrow>
          let chunk_data_size = length chunk in
          if chunk_data_size > SSIZE_MAX then
            (-1, [(ARGUMENT_ERROR_VALUE_EXCEEDS_MAXIMUM,
                   ''invalid chunk data size value exceeds maximum.'')], Some rv)
          else if chunk_data_offset' \<ge> chunk_data_size then
            (-1, [(ARGUMENT_ERROR_VALUE_OUT_OF_BOUNDS,
                   ''invalid chunk data offset value out of bounds.'')], Some rv)
          else
            let event_record_data = drop chunk_data_offset' chunk;
                event_record_data_size = chunk_data_size - chunk_data_offset' in
            if event_record_data_size < sizeof_evtx_event_record_header + 4 then
              (-1, [(RUNTIME_ERROR_VALUE_OUT_OF_BOUNDS,
                     ''invalid event record data size value too small.'')], Some rv)
            else if take 4 event_record_data \<noteq> evtx_event_record_signature then
              (-1, [(RUNTIME_ERROR_UNSUPPORTED_VALUE,
                     ''unsupported event record signature.'')], Some rv)
            else
              let rv1 = rv\<lparr> chunk_data_offset := chunk_data_offset',
                            data_size := byte_stream_copy_to_uint32_little_endian
                                           (drop 4 event_record_data),
                            identifier' := byte_stream_copy_to_uint64_little_endian
                                            (drop 8 event_record_data),
                            written_time := byte_stream_copy_to_uint64_little_endian
                                              (drop 16 event_record_data) \<rparr> in
              if unat (data_size rv1) < sizeof_evtx_event_record_header
                 \<or> unat (data_size rv1) > event_record_data_size - 4 then
                (-1, [(RUNTIME_ERROR_VALUE_OUT_OF_BOUNDS,
                       ''invalid event record data size value out of bounds.'')], Some rv1)
              else
                let copy_of_size = copy_of_size_at chunk chunk_data_offset' (data_size rv1) in
                (1, [], Some rv1))))"

subsection \<open>The event identifier and the event level\<close>

text \<open>
  The block of \<^verbatim>\<open>libevtx_record_values_get_event_identifier\<close> that runs while
  \<^verbatim>\<open>event_identifier_value\<close> is NULL: it walks root, System, EventID and stores the
  handle of the EventID value in the record values. Its result is the error of the
  failing step, or the local variable \<^verbatim>\<open>eventid_xml_tag\<close> with the record values. When
  the handle is set already, the block is skipped and \<^verbatim>\<open>eventid_xml_tag\<close> keeps its
  initial value NULL.
\<close>

definition event_identifier_walk ::
  "record_values \<Rightarrow> libcerror_error + (xml_tag option \<times> record_values)" where
  "event_identifier_walk rv =
     (if event_identifier_value rv = None then
        (case libfwevt_xml_document_get_root_xml_tag (xml_document rv) of
           (r1, root_xml_tag') \<Rightarrow>
        if r1 \<noteq> 1 then Inl (RUNTIME_ERROR_GET_FAILED, ''unable to retrieve root XML element.'')
        else
        (case libfwevt_xml_tag_get_element_by_utf8_name root_xml_tag' ''System'' of
           (r2, system_xml_tag) \<Rightarrow>
        if r2 \<noteq> 1 then Inl (RUNTIME_ERROR_GET_FAILED, ''unable to retrieve System XML element.'')
        else
        (case libfwevt_xml_tag_get_element_by_utf8_name system_xml_tag ''EventID'' of
           (r3, eventid_xml_tag) \<Rightarrow>
        if r3 \<noteq> 1 then Inl (RUNTIME_ERROR_GET_FAILED, ''unable to retrieve EventID XML element.'')
        else
        (case libfwevt_xml_tag_get_value eventid_xml_tag of
           (r4, v) \<Rightarrow>
        if r4 \<noteq> 1 then
          Inl (RUNTIME_ERROR_GET_FAILED, ''unable to retrieve EventID XML element value.'')
        else Inr (eventid_xml_tag, rv\<lparr> event_identifier_value := v \<rparr>)))))
      else Inr (None, rv))"

text \<open>
  \<^verbatim>\<open>libevtx_record_values_get_event_identifier\<close>. The result is the return value, the
  error, what has been written to \<^verbatim>\<open>*event_identifier\<close> (\<open>None\<close>: nothing) and the
  record values after the call. The function does not check the output pointer, which is
  taken to be valid.
\<close>

definition libevtx_record_values_get_event_identifier ::
  "record_values option \<Rightarrow>
     int \<times> libcerror_error list \<times> 32 word option \<times> record_values option" where
  "libevtx_record_values_get_event_identifier record_values =
     (case record_values of
        None \<Rightarrow> (-1, [(ARGUMENT_ERROR_INVALID_VALUE, ''invalid record values.'')], None, None)
      | Some rv \<Rightarrow>
          if xml_document rv = None then
            (-1, [(RUNTIME_ERROR_VALUE_MISSING,
                   ''invalid record values - missing XML document.'')], None, Some rv)
          else
          (case event_identifier_walk rv of
             Inl e \<Rightarrow> (-1, [e], None, Some rv)
           | Inr (eventid_xml_tag, rv1) \<Rightarrow>
          (case libfvalue_value_copy_to_32bit (event_identifier_value rv1) of
             None \<Rightarrow>
               (-1, [(RUNTIME_ERROR_COPY_FAILED,
                      ''unable to copy value to event identifier.'')], None, Some rv1)
           | Some event_identifier \<Rightarrow>
          (case libfwevt_xml_tag_get_attribute_by_utf8_name eventid_xml_tag ''Qualifiers'' of
             (result, qualifiers_xml_tag) \<Rightarrow>
          if result = -1 then
            (-1, [(RUNTIME_ERROR_GET_FAILED,
                   ''unable to retrieve Qualifiers XML attribute.'')],
             Some event_identifier, Some rv1)
          else if result \<noteq> 0 then
            (case libfwevt_xml_tag_get_value qualifiers_xml_tag of
               (r5, qualifiers_value) \<Rightarrow>
            if r5 \<noteq> 1 then
              (-1, [(RUNTIME_ERROR_GET_FAILED,
                     ''unable to retrieve Qualifiers XML element value.'')],
               Some event_identifier, Some rv1)
            else
            (case libfvalue_value_copy_to_32bit qualifiers_value of
               None \<Rightarrow>
                 (-1, [(RUNTIME_ERROR_COPY_FAILED, ''unable to copy value to qualifiers.'')],
                  Some event_identifier, Some rv1)
             | Some qualifiers \<Rightarrow>
                 (1, [], Some (event_identifier OR push_bit 16 qualifiers), Some rv1)))
          else (1, [], Some event_identifier, Some rv1)))))"

text \<open>
  \<^verbatim>\<open>libevtx_record_values_get_event_level\<close>: the walk root, System, Level while
  \<^verbatim>\<open>level_value\<close> is NULL, then the copy of the value to 8 bits.
\<close>

definition event_level_walk :: "record_values \<Rightarrow> libcerror_error + record_values" where
  "event_level_walk rv =
     (if level_value rv = None then
        (case libfwevt_xml_document_get_root_xml_tag (xml_document rv) of
           (r1, root_xml_tag') \<Rightarrow>
        if r1 \<noteq> 1 then Inl (RUNTIME_ERROR_GET_FAILED, ''unable to retrieve root XML element.'')
        else
        (case libfwevt_xml_tag_get_element_by_utf8_name root_xml_tag' ''System'' of
           (r2, system_xml_tag) \<Rightarrow>
        if r2 \<noteq> 1 then Inl (RUNTIME_ERROR_GET_FAILED, ''unable to retrieve System XML element.'')
        else
        (case libfwevt_xml_tag_get_element_by_utf8_name system_xml_tag ''Level'' of
           (r3, level_xml_tag) \<Rightarrow>
        if r3 \<noteq> 1 then Inl (RUNTIME_ERROR_GET_FAILED, ''unable to retrieve Level XML element.'')
        else
        (case libfwevt_xml_tag_get_value level_xml_tag of
           (r4, v) \<Rightarrow>
        if r4 \<noteq> 1 then
          Inl (RUNTIME_ERROR_GET_FAILED, ''unable to retrieve Level XML element value.'')
        else Inr (rv\<lparr> level_value := v \<rparr>)))))
      else Inr rv)"

definition libevtx_record_values_get_event_level ::
  "record_values option \<Rightarrow>
     int \<times> libcerror_error list \<times> 8 word option \<times> record_values option" where
  "libevtx_record_values_get_event_level record_values =
     (case record_values of
        None \<Rightarrow> (-1, [(ARGUMENT_ERROR_INVALID_VALUE, ''invalid record values.'')], None, None)
      | Some rv \<Rightarrow>
          if xml_document rv = None then
            (-1, [(RUNTIME_ERROR_VALUE_MISSING,
                   ''invalid record values - missing XML document.'')], None, Some rv)
          else
          (case event_level_walk rv of
             Inl e \<Rightarrow> (-1, [e], None, Some rv)
           | Inr rv1 \<Rightarrow>
          (case libfvalue_value_copy_to_8bit (level_value rv1) of
             None \<Rightarrow>
               (-1, [(RUNTIME_ERROR_COPY_FAILED, ''unable to copy value to event level.'')],
                None, Some rv1)
           | Some event_level \<Rightarrow> (1, [], Some event_level, Some rv1))))"

subsection \<open>The event data tag and the number of strings\<close>

text \<open>
  \<^verbatim>\<open>libevtx_record_values_get_event_data_xml_tag\<close>. The two output parameters come in
  with the values they hold before the call (\<open>tag0\<close>, \<open>type0\<close>) and are returned as they
  are after it; a query of the tree that finds nothing leaves them as they were. The
  callers pass the addresses of the two fields of the record values, so the checks of the
  two output pointers for NULL, which come before any effect, never fail and have no
  branch here.
\<close>

definition libevtx_record_values_get_event_data_xml_tag ::
  "record_values option \<Rightarrow> xml_tag option \<Rightarrow> 8 word \<Rightarrow>
     int \<times> libcerror_error list \<times> xml_tag option \<times> 8 word" where
  "libevtx_record_values_get_event_data_xml_tag record_values tag0 type0 =
     (case record_values of
        None \<Rightarrow>
          (-1, [(ARGUMENT_ERROR_INVALID_VALUE, ''invalid record values.'')], tag0, type0)
      | Some rv \<Rightarrow>
          (case libfwevt_xml_document_get_root_xml_tag (xml_document rv) of
             (r0, root_xml_tag') \<Rightarrow>
          if r0 \<noteq> 1 then
            (-1, [(RUNTIME_ERROR_GET_FAILED, ''unable to retrieve root XML element.'')],
             tag0, type0)
          else
          (case libfwevt_xml_tag_get_element_by_utf8_name root_xml_tag' ''EventData'' of
             (result, event_data) \<Rightarrow>
          if result = -1 then
            (-1, [(RUNTIME_ERROR_GET_FAILED, ''unable to retrieve EventData XML element.'')],
             tag0, type0)
          else if result \<noteq> 0 then (result, [], event_data, EVENT_DATA_TYPE_EVENT_DATA)
          else
          (case libfwevt_xml_tag_get_element_by_utf8_name root_xml_tag' ''UserData'' of
             (result, user_data_xml_tag) \<Rightarrow>
          if result = -1 then
            (-1, [(RUNTIME_ERROR_GET_FAILED, ''unable to retrieve UserData XML element.'')],
             tag0, type0)
          else if result \<noteq> 0 then
            (case libfwevt_xml_tag_get_number_of_elements user_data_xml_tag of
               (r1, number_of_elements) \<Rightarrow>
            if r1 \<noteq> 1 then
              (-1, [(RUNTIME_ERROR_GET_FAILED, ''unable to retrieve number of elements.'')],
               tag0, type0)
            else if number_of_elements \<noteq> 1 then
              (-1, [(RUNTIME_ERROR_UNSUPPORTED_VALUE,
                     ''unsupported number of UserData elements.'')], tag0, type0)
            else
            (case libfwevt_xml_tag_get_element_by_index user_data_xml_tag 0 of
               (r2, first_element) \<Rightarrow>
            if r2 \<noteq> 1 then
              (-1, [(RUNTIME_ERROR_GET_FAILED,
                     ''unable to retrieve first UserData element.'')], tag0, type0)
            else (result, [], first_element, EVENT_DATA_TYPE_USER_DATA)))
          else (result, [], tag0, type0)))))"

text \<open>
  The \<^verbatim>\<open>for\<close> loop of \<^verbatim>\<open>libevtx_record_values_get_number_of_strings\<close> over the elements
  of the event data tag: \<open>element_index\<close> is the loop variable and \<open>number_of_strings\<close>
  the value of \<^verbatim>\<open>*number_of_strings\<close>. The result is the return value the loop leads to
  (1 when it runs to its end), the error, and \<^verbatim>\<open>*number_of_strings\<close> at that point.
\<close>

function number_of_strings_loop ::
  "xml_tag option \<Rightarrow> int \<Rightarrow> int \<Rightarrow> int \<Rightarrow> int \<times> libcerror_error list \<times> int" where
  "number_of_strings_loop tag number_of_elements element_index number_of_strings =
     (if element_index < number_of_elements then
        (case libfwevt_xml_tag_get_element_by_index tag element_index of
           (r1, element_xml_tag) \<Rightarrow>
        if r1 \<noteq> 1 then
          (-1, [(RUNTIME_ERROR_GET_FAILED, ''unable to retrieve element: %d.'')],
           number_of_strings)
        else if element_xml_tag = None then
          (-1, [(RUNTIME_ERROR_VALUE_MISSING, ''missing element: %d.'')], number_of_strings)
        else
        (case libfwevt_xml_tag_get_utf8_name_size element_xml_tag of
           (r2, element_name_size) \<Rightarrow>
        if r2 \<noteq> 1 then
          (-1, [(RUNTIME_ERROR_GET_FAILED, ''unable to retrieve element: %d name size.'')],
           number_of_strings)
        else if element_name_size = 5 then
          (case libfwevt_xml_tag_get_utf8_name element_xml_tag 5 of
             (r3, element_name) \<Rightarrow>
          if r3 \<noteq> 1 then
            (-1, [(RUNTIME_ERROR_GET_FAILED, ''unable to retrieve element: %d name.'')],
             number_of_strings)
          else if libcstring_narrow_string_compare element_name ''Data'' 4 = 0 then
            if element_index \<noteq> number_of_strings then
              (-1, [(RUNTIME_ERROR_UNSUPPORTED_VALUE,
                     ''unsupported non-contiguous Data elements.'')], number_of_strings)
            else
              number_of_strings_loop tag number_of_elements (element_index + 1)
                (number_of_strings + 1)
          else
            number_of_strings_loop tag number_of_elements (element_index + 1)
              number_of_strings)
        else
          number_of_strings_loop tag number_of_elements (element_index + 1)
            number_of_strings))
      else (1, [], number_of_strings))"
  by pat_completeness auto
termination
  by (relation "measure (\<lambda>(tag, n, i, c). nat (n - i))") auto

declare number_of_strings_loop.simps [simp del]

text \<open>
  \<^verbatim>\<open>libevtx_record_values_get_number_of_strings\<close>. The output parameter
  \<open>number_of_strings\<close> is the variable the pointer refers to, \<open>None\<close> for a NULL pointer.
  The result is the return value, the error, that variable after the call and the record
  values after the call. The event data tag and type are resolved straight into the
  fields of the record values.
\<close>

definition libevtx_record_values_get_number_of_strings ::
  "record_values option \<Rightarrow> int option \<Rightarrow>
     int \<times> libcerror_error list \<times> int option \<times> record_values option" where
  "libevtx_record_values_get_number_of_strings record_values number_of_strings =
     (case record_values of
        None \<Rightarrow>
          (-1, [(ARGUMENT_ERROR_INVALID_VALUE, ''invalid record values.'')],
           number_of_strings, None)
      | Some rv \<Rightarrow>
          if xml_document rv = None then
            (-1, [(RUNTIME_ERROR_VALUE_MISSING,
                   ''invalid record values - missing XML document.'')],
             number_of_strings, Some rv)
          else if number_of_strings = None then
            (-1, [(ARGUMENT_ERROR_INVALID_VALUE, ''invalid number of strings.'')],
             None, Some rv)
          else
          (case (if event_data_xml_tag rv = None
                 then libevtx_record_values_get_event_data_xml_tag (Some rv)
                        (event_data_xml_tag rv) (event_data_type rv)
                 else (0, [], event_data_xml_tag rv, event_data_type rv)) of
             (result, errs, tag1, type1) \<Rightarrow>
          let rv1 = rv\<lparr> event_data_xml_tag := tag1, event_data_type := type1 \<rparr> in
          if result = -1 then
            (-1, errs @ [(RUNTIME_ERROR_GET_FAILED,
                          ''unable to retrieve event data XML tag.'')], Some 0, Some rv1)
          else if event_data_xml_tag rv1 \<noteq> None then
            (case libfwevt_xml_tag_get_number_of_elements (event_data_xml_tag rv1) of
               (r1, number_of_elements) \<Rightarrow>
            if r1 \<noteq> 1 then
              (-1, [(RUNTIME_ERROR_GET_FAILED, ''unable to retrieve number of elements.'')],
               Some 0, Some rv1)
            else if event_data_type rv1 = EVENT_DATA_TYPE_USER_DATA then
              (1, [], Some number_of_elements, Some rv1)
            else
              (case number_of_strings_loop (event_data_xml_tag rv1) number_of_elements 0 0 of
                 (r2, errs2, number_of_strings) \<Rightarrow> (r2, errs2, Some number_of_strings, Some rv1)))
          else (1, [], Some 0, Some rv1)))"

subsection \<open>Cloning\<close>

text \<open>
  Modelled from the spec: \<^verbatim>\<open>libfwevt_xml_document_clone\<close> clones the XML tree (section 3,
  clone semantics); the clone is a document of its own with an equal tree.
\<close>

definition libfwevt_xml_document_clone ::
  "xml_document option \<Rightarrow> int \<times> xml_document option" where
  "libfwevt_xml_document_clone source = (case source of None \<Rightarrow> (-1, None) | Some d \<Rightarrow> (1, Some d))"

text \<open>
  \<^verbatim>\<open>libevtx_record_values_clone\<close>. The destination is a pointer to a pointer: \<open>None\<close> is
  a NULL argument, \<open>Some None\<close> a pointer to NULL and \<open>Some (Some d)\<close> a pointer to record
  values that exist already. The result is the return value, the error and the
  destination after the call. Memory allocation and \<^verbatim>\<open>memory_copy\<close> are taken to succeed;
  \<^verbatim>\<open>memory_copy\<close> copies every field of the source.
\<close>

definition libevtx_record_values_clone ::
  "record_values option option \<Rightarrow> record_values option \<Rightarrow>
     int \<times> libcerror_error list \<times> record_values option option" where
  "libevtx_record_values_clone destination_record_values source_record_values =
     (case destination_record_values of
        None \<Rightarrow>
          (-1, [(ARGUMENT_ERROR_INVALID_VALUE, ''invalid destination record values.'')], None)
      | Some (Some d) \<Rightarrow>
          (-1, [(RUNTIME_ERROR_VALUE_ALREADY_SET,
                 ''invalid destination record values value already set.'')], Some (Some d))
      | Some None \<Rightarrow>
          (case source_record_values of
             None \<Rightarrow> (1, [], Some None)
           | Some src \<Rightarrow>
               let dst = src;
                   dst1 = dst\<lparr> xml_document := None \<rparr> in
               if xml_document src \<noteq> None then
                 (case libfwevt_xml_document_clone (xml_document src) of
                    (r, document) \<Rightarrow>
                 if r \<noteq> 1 then
                   (-1, [(RUNTIME_ERROR_INITIALIZE_FAILED,
                          ''unable to create destination XML document.'')], Some None)
                 else (1, [], Some (Some (dst1\<lparr> xml_document := document \<rparr>))))
               else (1, [], Some (Some dst1))))"

text \<open>
  The size of the binary XML that \<^verbatim>\<open>libevtx_record_values_read_xml_document\<close> computes
  from the stored header: \<^verbatim>\<open>data_size - ( sizeof( evtx_event_record_header_t ) + 4 )\<close>, in
  \<^verbatim>\<open>size_t\<close> arithmetic (64 bits here), which wraps around.
\<close>

definition read_xml_document_event_record_data_size :: "record_values \<Rightarrow> 64 word" where
  "read_xml_document_event_record_data_size rv =
     ucast (data_size rv) - word_of_nat (sizeof_evtx_event_record_header + 4)"

section \<open>Example inputs\<close>

definition example_io_handle :: io_handle where
  "example_io_handle = \<lparr> ascii_codepage = 1252 \<rparr>"

text \<open>
  A chunk of 56 bytes that starts with a record header: the signature, the size, the
  identifier 7 and the written time 9, followed by the bytes 1 to 32.
\<close>

definition example_chunk :: "8 word \<Rightarrow> 8 word list" where
  "example_chunk size_byte =
     [0x2a, 0x2a, 0x00, 0x00, size_byte, 0, 0, 0,
      7, 0, 0, 0, 0, 0, 0, 0, 9, 0, 0, 0, 0, 0, 0, 0,
      1, 2, 3, 4, 5, 6, 7, 8, 9, 10, 11, 12, 13, 14, 15, 16,
      17, 18, 19, 20, 21, 22, 23, 24, 25, 26, 27, 28, 29, 30, 31, 32]"

text \<open>The record values that a successful read of \<open>example_chunk\<close> at offset 0 stores.\<close>

definition example_header_values :: "32 word \<Rightarrow> record_values" where
  "example_header_values size' =
     cleared_record_values\<lparr> data_size := size', identifier' := 7, written_time := 9 \<rparr>"

text \<open>
  The tree \<open>Event/System/{EventID, Level}\<close> in which \<open>EventID\<close> has the value \<open>0x1234\<close>
  and the attribute \<open>Qualifiers\<close> with the value \<open>0x0001\<close>, and record values that hold
  it as their decoded XML document.
\<close>

definition example_document :: xml_document where
  "example_document =
     \<lparr> root_xml_tag = Some (XML_Tag ''Event'' None []
         [XML_Tag ''System'' None []
            [XML_Tag ''EventID'' (Some (VALUE_INTEGER 0x1234))
               [XML_Tag ''Qualifiers'' (Some (VALUE_INTEGER 0x0001)) [] []] [],
             XML_Tag ''Level'' (Some (VALUE_INTEGER 0)) [] []]]) \<rparr>"

definition example_record :: record_values where
  "example_record = cleared_record_values\<lparr> xml_document := Some example_document \<rparr>"

text \<open>
  The same tree, but with the value \<open>0x100000000\<close> of the attribute \<open>Qualifiers\<close>, which
  does not fit 32 bits.
\<close>

definition example_wide_qualifiers_record :: record_values where
  "example_wide_qualifiers_record =
     cleared_record_values\<lparr> xml_document :=
       Some \<lparr> root_xml_tag = Some (XML_Tag ''Event'' None []
         [XML_Tag ''System'' None []
            [XML_Tag ''EventID'' (Some (VALUE_INTEGER 0x1234))
               [XML_Tag ''Qualifiers'' (Some (VALUE_INTEGER 0x100000000)) [] []] [],
             XML_Tag ''Level'' (Some (VALUE_INTEGER 0)) [] []]]) \<rparr> \<rparr>"

text \<open>
  A root element \<open>Event\<close> whose only child is \<open>EventData\<close> with empty child elements of
  the given names, and record values that hold it as their decoded XML document.
\<close>

definition example_event_data :: "string list \<Rightarrow> xml_tag" where
  "example_event_data names = XML_Tag ''EventData'' None [] (map (\<lambda>n. XML_Tag n None [] []) names)"

definition example_event_data_record :: "string list \<Rightarrow> record_values" where
  "example_event_data_record names =
     cleared_record_values\<lparr> xml_document :=
       Some \<lparr> root_xml_tag = Some (XML_Tag ''Event'' None [] [example_event_data names]) \<rparr> \<rparr>"

text \<open>A root element \<open>Event\<close> without any child.\<close>

definition example_empty_record :: record_values where
  "example_empty_record =
     cleared_record_values\<lparr> xml_document :=
       Some \<lparr> root_xml_tag = Some (XML_Tag ''Event'' None [] []) \<rparr> \<rparr>"

section \<open>The record header: properties\<close>

lemmas header_defs = libevtx_record_values_read_header_def SSIZE_MAX_def
  sizeof_evtx_event_record_header_def evtx_event_record_signature_def

lemmas example_header_defs = example_chunk_def example_header_values_def
  cleared_record_values_def example_io_handle_def
  byte_stream_copy_to_uint32_little_endian_def byte_stream_copy_to_uint64_little_endian_def

lemma example_chunk_length: "length (example_chunk b) = 56"
  by (simp add: example_chunk_def)

lemma example_chunk_signature:
  "take 4 (drop 0 (example_chunk b)) = evtx_event_record_signature"
  by (simp add: example_chunk_def evtx_event_record_signature_def)

lemma example_chunk_size:
  "byte_stream_copy_to_uint32_little_endian (drop 4 (drop 0 (example_chunk 48))) = 48"
  by (simp add: example_header_defs)

lemma example_chunk_copy_of_size: "copy_of_size_at (example_chunk 48) 0 48 = 0x18171615"
  by (simp add: copy_of_size_at_def example_header_defs)

lemma read_header_small_size:
  "libevtx_record_values_read_header (Some cleared_record_values) (Some example_io_handle)
     (Some (example_chunk 3)) 0 =
   (-1, [(RUNTIME_ERROR_VALUE_OUT_OF_BOUNDS,
          ''invalid event record data size value out of bounds.'')],
    Some (example_header_values 3))"
  by (simp add: header_defs example_header_defs Let_def)

text \<open>
  C2 (the code departs from the claim). The claim: a stored size below the header length
  plus 4 is rejected with the size-out-of-bounds error. The size check of the code
  compares with the header length alone, so the size 27 (header length plus 3) in a chunk
  of 56 bytes passes: the call returns 1 and stores the size.
\<close>

theorem read_header_accepts_size_27:
  "libevtx_record_values_read_header (Some cleared_record_values) (Some example_io_handle)
     (Some (example_chunk 27)) 0 = (1, [], Some (example_header_values 27))
   \<and> unat (27 :: 32 word) = sizeof_evtx_event_record_header + 3"
  by (simp add: header_defs example_header_defs Let_def)

text \<open>
  For the record values stored by that call, the size of the binary XML computed by the
  reader of the XML document wraps around to the largest 64-bit value.
\<close>

lemma read_xml_document_size_wraps:
  "read_xml_document_event_record_data_size (example_header_values 27) = 0xffffffffffffffff"
  by (simp add: read_xml_document_event_record_data_size_def example_header_values_def
      cleared_record_values_def sizeof_evtx_event_record_header_def)

text \<open>
  C4 (as stated, false). The claim: whenever the header reader returns -1, the fields
  chunk data offset, data size, identifier and written time are as before the call. The
  reader stores the four fields before it validates the size, so a header whose size is
  out of range (here 3) leaves them overwritten: the identifier of the cleared record
  values was 0 and is 7 after the failed call.
\<close>

theorem read_header_failure_overwrites_fields:
  "fst (libevtx_record_values_read_header (Some cleared_record_values)
          (Some example_io_handle) (Some (example_chunk 3)) 0) = -1
   \<and> map_option identifier'
        (snd (snd (libevtx_record_values_read_header (Some cleared_record_values)
                     (Some example_io_handle) (Some (example_chunk 3)) 0))) = Some 7
   \<and> identifier' cleared_record_values = 0"
  by (simp add: read_header_small_size) (simp add: example_header_defs)

text \<open>
  C4 (amended). When the header reader returns -1 with any error but the one of the size
  range validation (a NULL argument, a chunk size above the maximum, an offset out of
  bounds, a record area below the header length plus 4, a signature mismatch), the
  record values are as before the call. When it returns -1 from the size range
  validation, the four fields hold the offset and the size, identifier and written time
  read from the header, and no other field has changed.
\<close>

theorem read_header_failure_fields:
  assumes "libevtx_record_values_read_header record_values io chunk_data off = (-1, errs, after)"
  shows "(errs \<noteq> [(RUNTIME_ERROR_VALUE_OUT_OF_BOUNDS,
                    ''invalid event record data size value out of bounds.'')]
            \<longrightarrow> after = record_values)
       \<and> (errs = [(RUNTIME_ERROR_VALUE_OUT_OF_BOUNDS,
                    ''invalid event record data size value out of bounds.'')]
            \<longrightarrow> (\<exists>rv chunk. record_values = Some rv \<and> chunk_data = Some chunk \<and>
                   after = Some (rv\<lparr> chunk_data_offset := off,
                     data_size := byte_stream_copy_to_uint32_little_endian
                                    (drop 4 (drop off chunk)),
                     identifier' := byte_stream_copy_to_uint64_little_endian
                                      (drop 8 (drop off chunk)),
                     written_time := byte_stream_copy_to_uint64_little_endian
                                       (drop 16 (drop off chunk)) \<rparr>)))"
  using assms
  by (auto simp add: libevtx_record_values_read_header_def Let_def
      split: option.splits if_splits)

theorem read_header_failure_fields_witness:
  "libevtx_record_values_read_header (Some cleared_record_values) (Some example_io_handle)
     (Some (example_chunk 3)) 0 =
     (-1, [(RUNTIME_ERROR_VALUE_OUT_OF_BOUNDS,
            ''invalid event record data size value out of bounds.'')],
      Some (example_header_values 3))
   \<and> (\<exists>rv chunk. Some cleared_record_values = Some rv \<and> Some (example_chunk 3) = Some chunk \<and>
         Some (example_header_values 3) = Some (rv\<lparr> chunk_data_offset := 0,
           data_size := byte_stream_copy_to_uint32_little_endian (drop 4 (drop 0 chunk)),
           identifier' := byte_stream_copy_to_uint64_little_endian (drop 8 (drop 0 chunk)),
           written_time := byte_stream_copy_to_uint64_little_endian
                             (drop 16 (drop 0 chunk)) \<rparr>))"
  using read_header_failure_fields [OF read_header_small_size] read_header_small_size
  by simp

text \<open>
  C8. Let the chunk and the offset pass the bounds checks (the chunk is at most
  \<open>SSIZE_MAX\<close> long, the offset lies inside it, at least the header length plus 4 bytes
  follow), the signature check, and the size range check of the reader. Then the header
  reader returns 1 with no error and stores the header, also when the copy of the size at
  the end of the record differs from the size: the copy is read and nothing is done with
  it.
\<close>

theorem read_header_ignores_copy_of_size:
  assumes "length chunk \<le> SSIZE_MAX"
    and "off < length chunk"
    and "sizeof_evtx_event_record_header + 4 \<le> length chunk - off"
    and "take 4 (drop off chunk) = evtx_event_record_signature"
    and "size' = byte_stream_copy_to_uint32_little_endian (drop 4 (drop off chunk))"
    and "sizeof_evtx_event_record_header \<le> unat size'"
    and "unat size' \<le> length chunk - off - 4"
    and "copy_of_size_at chunk off size' \<noteq> size'"
  shows "libevtx_record_values_read_header (Some rv) (Some io) (Some chunk) off =
      (1, [], Some (rv\<lparr> chunk_data_offset := off, data_size := size',
         identifier' := byte_stream_copy_to_uint64_little_endian (drop 8 (drop off chunk)),
         written_time := byte_stream_copy_to_uint64_little_endian
                           (drop 16 (drop off chunk)) \<rparr>))"
  using assms by (simp add: header_defs Let_def)

theorem read_header_ignores_copy_of_size_witness:
  "copy_of_size_at (example_chunk 48) 0 48 = 0x18171615
   \<and> libevtx_record_values_read_header (Some cleared_record_values) (Some example_io_handle)
       (Some (example_chunk 48)) 0 = (1, [], Some (example_header_values 48))"
proof -
  have "libevtx_record_values_read_header (Some cleared_record_values)
          (Some example_io_handle) (Some (example_chunk 48)) 0 =
        (1, [], Some (cleared_record_values\<lparr> chunk_data_offset := 0, data_size := 48,
           identifier' := byte_stream_copy_to_uint64_little_endian
                            (drop 8 (drop 0 (example_chunk 48))),
           written_time := byte_stream_copy_to_uint64_little_endian
                             (drop 16 (drop 0 (example_chunk 48))) \<rparr>))"
  proof (rule read_header_ignores_copy_of_size)
    show "length (example_chunk 48) \<le> SSIZE_MAX"
      by (simp add: example_chunk_length SSIZE_MAX_def)
    show "0 < length (example_chunk 48)"
      by (simp add: example_chunk_length)
    show "sizeof_evtx_event_record_header + 4 \<le> length (example_chunk 48) - 0"
      by (simp add: example_chunk_length sizeof_evtx_event_record_header_def)
    show "take 4 (drop 0 (example_chunk 48)) = evtx_event_record_signature"
      by (rule example_chunk_signature)
    show "48 = byte_stream_copy_to_uint32_little_endian (drop 4 (drop 0 (example_chunk 48)))"
      by (rule example_chunk_size [symmetric])
    show "sizeof_evtx_event_record_header \<le> unat (48 :: 32 word)"
      by (simp add: sizeof_evtx_event_record_header_def)
    show "unat (48 :: 32 word) \<le> length (example_chunk 48) - 0 - 4"
      by (simp add: example_chunk_length)
    show "copy_of_size_at (example_chunk 48) 0 48 \<noteq> 48"
      by (simp add: example_chunk_copy_of_size)
  qed
  then show ?thesis
    by (simp add: example_chunk_copy_of_size) (simp add: example_header_defs)
qed

text \<open>
  C9. Let the chunk and the offset pass the bounds checks and the minimum length check.
  Then the header reader fails with the unsupported-signature error if and only if the 4
  bytes at the offset differ from the signature \<open>2A 2A 00 00\<close>. In particular, replacing
  any one byte of a valid signature by another value makes the reader fail with that
  error, the record values untouched.
\<close>

theorem read_header_signature:
  assumes "length chunk \<le> SSIZE_MAX"
    and "off < length chunk"
    and "sizeof_evtx_event_record_header + 4 \<le> length chunk - off"
  shows "((\<exists>after. libevtx_record_values_read_header (Some rv) (Some io) (Some chunk) off =
             (-1, [(RUNTIME_ERROR_UNSUPPORTED_VALUE,
                    ''unsupported event record signature.'')], after))
          \<longleftrightarrow> take 4 (drop off chunk) \<noteq> evtx_event_record_signature)
       \<and> (\<forall>i b. i < 4 \<and> take 4 (drop off chunk) = evtx_event_record_signature
                  \<and> b \<noteq> chunk ! (off + i) \<longrightarrow>
            libevtx_record_values_read_header (Some rv) (Some io)
              (Some (chunk[off + i := b])) off =
             (-1, [(RUNTIME_ERROR_UNSUPPORTED_VALUE,
                    ''unsupported event record signature.'')], Some rv))"
proof (intro conjI allI impI)
  show "(\<exists>after. libevtx_record_values_read_header (Some rv) (Some io) (Some chunk) off =
             (-1, [(RUNTIME_ERROR_UNSUPPORTED_VALUE,
                    ''unsupported event record signature.'')], after))
          \<longleftrightarrow> take 4 (drop off chunk) \<noteq> evtx_event_record_signature"
    using assms by (auto simp add: header_defs Let_def)
next
  fix i b
  assume h: "i < 4 \<and> take 4 (drop off chunk) = evtx_event_record_signature
               \<and> b \<noteq> chunk ! (off + i)"
  then have i4: "i < 4"
    and sig: "take 4 (drop off chunk) = evtx_event_record_signature"
    and b: "b \<noteq> chunk ! (off + i)"
    by simp_all
  have len: "off + i < length chunk"
    using assms(3) i4 by (simp add: sizeof_evtx_event_record_header_def)
  have "take 4 (drop off (chunk[off + i := b])) ! i = b"
    using len i4 by simp
  moreover have "take 4 (drop off chunk) ! i = chunk ! (off + i)"
    using len i4 by simp
  ultimately have "take 4 (drop off (chunk[off + i := b])) \<noteq> evtx_event_record_signature"
    using sig b by metis
  then show "libevtx_record_values_read_header (Some rv) (Some io)
               (Some (chunk[off + i := b])) off =
             (-1, [(RUNTIME_ERROR_UNSUPPORTED_VALUE,
                    ''unsupported event record signature.'')], Some rv)"
    using assms by (simp add: header_defs Let_def)
qed

theorem read_header_signature_witness:
  "take 4 (drop 0 (example_chunk 48)) = evtx_event_record_signature
   \<and> libevtx_record_values_read_header (Some cleared_record_values) (Some example_io_handle)
       (Some ((example_chunk 48)[0 + 1 := 0x2b])) 0 =
       (-1, [(RUNTIME_ERROR_UNSUPPORTED_VALUE, ''unsupported event record signature.'')],
        Some cleared_record_values)
   \<and> \<not> (\<exists>after. libevtx_record_values_read_header (Some cleared_record_values)
              (Some example_io_handle) (Some (example_chunk 48)) 0 =
             (-1, [(RUNTIME_ERROR_UNSUPPORTED_VALUE,
                    ''unsupported event record signature.'')], after))"
proof -
  have a: "length (example_chunk 48) \<le> SSIZE_MAX"
    by (simp add: example_chunk_length SSIZE_MAX_def)
  have b: "0 < length (example_chunk 48)"
    by (simp add: example_chunk_length)
  have c: "sizeof_evtx_event_record_header + 4 \<le> length (example_chunk 48) - 0"
    by (simp add: example_chunk_length sizeof_evtx_event_record_header_def)
  have d: "(0x2b :: 8 word) \<noteq> example_chunk 48 ! (0 + 1)"
    by (simp add: example_chunk_def)
  note th = read_header_signature [OF a b c, of cleared_record_values example_io_handle]
  from th have "\<not> (\<exists>after. libevtx_record_values_read_header (Some cleared_record_values)
              (Some example_io_handle) (Some (example_chunk 48)) 0 =
             (-1, [(RUNTIME_ERROR_UNSUPPORTED_VALUE,
                    ''unsupported event record signature.'')], after))"
    using example_chunk_signature [of 48] by blast
  moreover have "libevtx_record_values_read_header (Some cleared_record_values)
       (Some example_io_handle) (Some ((example_chunk 48)[0 + 1 := 0x2b])) 0 =
       (-1, [(RUNTIME_ERROR_UNSUPPORTED_VALUE, ''unsupported event record signature.'')],
        Some cleared_record_values)"
  proof (rule th [THEN conjunct2, rule_format, of 1 "0x2b"])
    show "(1 :: nat) < 4 \<and> take 4 (drop 0 (example_chunk 48)) = evtx_event_record_signature
            \<and> (0x2b :: 8 word) \<noteq> example_chunk 48 ! (0 + 1)"
      using example_chunk_signature [of 48] d by simp
  qed
  ultimately show ?thesis
    using example_chunk_signature [of 48] by blast
qed

section \<open>The event identifier and the event level: properties\<close>

lemmas tree_defs = libfwevt_xml_document_get_root_xml_tag_def
  libfwevt_xml_tag_get_element_by_utf8_name_def libfwevt_xml_tag_get_attribute_by_utf8_name_def
  libfwevt_xml_tag_get_value_def libfwevt_xml_tag_get_number_of_elements_def
  libfwevt_xml_tag_get_element_by_index_def

lemmas example_tree_defs = example_document_def example_record_def example_event_data_def
  example_event_data_record_def example_empty_record_def cleared_record_values_def

text \<open>
  C1 (as stated, false). The claim: for every record whose tree has
  \<open>Event/System/EventID\<close> with a value that copies to 32 bits, the first call of the event
  identifier accessor returns 1. In the example the root has \<open>System\<close>, \<open>System\<close> has
  \<open>EventID\<close>, and the value \<open>0x1234\<close> of \<open>EventID\<close> copies to 32 bits; its attribute
  \<open>Qualifiers\<close> has the value \<open>0x100000000\<close>, which does not, and the first call returns
  -1 after it has written \<open>0x1234\<close>.
\<close>

theorem get_event_identifier_wide_qualifiers_fails:
  "xml_document example_wide_qualifiers_record \<noteq> None
   \<and> event_identifier_value example_wide_qualifiers_record = None
   \<and> fst (libfwevt_xml_tag_get_element_by_utf8_name
            (root_xml_tag (the (xml_document example_wide_qualifiers_record))) ''System'') = 1
   \<and> fst (libfwevt_xml_tag_get_element_by_utf8_name
            (snd (libfwevt_xml_tag_get_element_by_utf8_name
               (root_xml_tag (the (xml_document example_wide_qualifiers_record))) ''System''))
            ''EventID'') = 1
   \<and> libfvalue_value_copy_to_32bit (Some (VALUE_INTEGER 0x1234)) = Some 0x1234
   \<and> libevtx_record_values_get_event_identifier (Some example_wide_qualifiers_record) =
       (-1, [(RUNTIME_ERROR_COPY_FAILED, ''unable to copy value to qualifiers.'')],
        Some 0x1234,
        Some (example_wide_qualifiers_record
          \<lparr> event_identifier_value := Some (VALUE_INTEGER 0x1234) \<rparr>))"
  by (simp add: libevtx_record_values_get_event_identifier_def event_identifier_walk_def
      libfvalue_value_copy_to_32bit_def tree_defs example_wide_qualifiers_record_def
      cleared_record_values_def)

text \<open>
  C1 (amended). Let the record values hold a decoded XML document whose root has a child
  \<open>System\<close> with a child \<open>EventID\<close>, the value of which copies to 32 bits as \<open>event_id\<close>,
  and let the call be the first one (the handle of the value is still NULL). If \<open>EventID\<close>
  has an attribute \<open>Qualifiers\<close> whose value copies to 32 bits as \<open>qualifiers\<close>, the call
  returns 1 and yields \<open>(qualifiers << 16) | event_id\<close>; if it has no such attribute, the
  call returns 1 and yields \<open>event_id\<close>; if it has the attribute and its value does not
  copy to 32 bits, the call returns -1 with a copy error, \<open>event_id\<close> written. In each
  case the handle is memoised.
\<close>

theorem get_event_identifier_first_call:
  assumes "xml_document rv = Some doc"
    and "root_xml_tag doc = Some root"
    and "event_identifier_value rv = None"
    and "libfwevt_xml_tag_get_element_by_utf8_name (Some root) ''System'' = (1, Some system)"
    and "libfwevt_xml_tag_get_element_by_utf8_name (Some system) ''EventID'' = (1, Some eventid)"
    and "libfvalue_value_copy_to_32bit (tag_value eventid) = Some event_id"
  shows "(\<forall>q qualifiers.
            libfwevt_xml_tag_get_attribute_by_utf8_name (Some eventid) ''Qualifiers'' =
              (1, Some q)
            \<and> libfvalue_value_copy_to_32bit (tag_value q) = Some qualifiers \<longrightarrow>
            libevtx_record_values_get_event_identifier (Some rv) =
              (1, [], Some (push_bit 16 qualifiers OR event_id),
               Some (rv\<lparr> event_identifier_value := tag_value eventid \<rparr>)))
       \<and> (fst (libfwevt_xml_tag_get_attribute_by_utf8_name (Some eventid) ''Qualifiers'') = 0
            \<longrightarrow>
            libevtx_record_values_get_event_identifier (Some rv) =
              (1, [], Some event_id,
               Some (rv\<lparr> event_identifier_value := tag_value eventid \<rparr>)))
       \<and> (\<forall>q.
            libfwevt_xml_tag_get_attribute_by_utf8_name (Some eventid) ''Qualifiers'' =
              (1, Some q)
            \<and> libfvalue_value_copy_to_32bit (tag_value q) = None \<longrightarrow>
            libevtx_record_values_get_event_identifier (Some rv) =
              (-1, [(RUNTIME_ERROR_COPY_FAILED, ''unable to copy value to qualifiers.'')],
               Some event_id,
               Some (rv\<lparr> event_identifier_value := tag_value eventid \<rparr>)))"
proof -
  have walk: "event_identifier_walk rv =
      Inr (Some eventid, rv\<lparr> event_identifier_value := tag_value eventid \<rparr>)"
    using assms(1-5)
    by (simp add: event_identifier_walk_def libfwevt_xml_document_get_root_xml_tag_def
        libfwevt_xml_tag_get_value_def)
  show ?thesis
  proof (intro conjI allI impI)
    fix q qualifiers
    assume "libfwevt_xml_tag_get_attribute_by_utf8_name (Some eventid) ''Qualifiers'' =
              (1, Some q)
            \<and> libfvalue_value_copy_to_32bit (tag_value q) = Some qualifiers"
    then show "libevtx_record_values_get_event_identifier (Some rv) =
              (1, [], Some (push_bit 16 qualifiers OR event_id),
               Some (rv\<lparr> event_identifier_value := tag_value eventid \<rparr>))"
      using assms(1,6) walk
      by (simp add: libevtx_record_values_get_event_identifier_def
          libfwevt_xml_tag_get_value_def or.commute)
  next
    assume absent:
      "fst (libfwevt_xml_tag_get_attribute_by_utf8_name (Some eventid) ''Qualifiers'') = 0"
    obtain r x where
      rx: "libfwevt_xml_tag_get_attribute_by_utf8_name (Some eventid) ''Qualifiers'' = (r, x)"
      by (cases "libfwevt_xml_tag_get_attribute_by_utf8_name (Some eventid) ''Qualifiers''")
    with absent have "r = 0" by simp
    then show "libevtx_record_values_get_event_identifier (Some rv) =
              (1, [], Some event_id,
               Some (rv\<lparr> event_identifier_value := tag_value eventid \<rparr>))"
      using assms(1,6) walk rx
      by (simp add: libevtx_record_values_get_event_identifier_def)
  next
    fix q
    assume "libfwevt_xml_tag_get_attribute_by_utf8_name (Some eventid) ''Qualifiers'' =
              (1, Some q)
            \<and> libfvalue_value_copy_to_32bit (tag_value q) = None"
    then show "libevtx_record_values_get_event_identifier (Some rv) =
              (-1, [(RUNTIME_ERROR_COPY_FAILED, ''unable to copy value to qualifiers.'')],
               Some event_id,
               Some (rv\<lparr> event_identifier_value := tag_value eventid \<rparr>))"
      using assms(1,6) walk
      by (simp add: libevtx_record_values_get_event_identifier_def
          libfwevt_xml_tag_get_value_def)
  qed
qed

theorem get_event_identifier_first_call_witness:
  "libevtx_record_values_get_event_identifier (Some example_record) =
     (1, [], Some 0x00011234,
      Some (example_record\<lparr> event_identifier_value := Some (VALUE_INTEGER 0x1234) \<rparr>))"
proof -
  define q where "q = XML_Tag ''Qualifiers'' (Some (VALUE_INTEGER 0x0001)) [] []"
  define eventid where "eventid = XML_Tag ''EventID'' (Some (VALUE_INTEGER 0x1234)) [q] []"
  define system where "system = XML_Tag ''System'' None []
            [eventid, XML_Tag ''Level'' (Some (VALUE_INTEGER 0)) [] []]"
  define root where "root = XML_Tag ''Event'' None [] [system]"
  have a1: "xml_document example_record = Some example_document"
    by (simp add: example_record_def)
  have a2: "root_xml_tag example_document = Some root"
    by (simp add: example_document_def root_def system_def eventid_def q_def)
  have a3: "event_identifier_value example_record = None"
    by (simp add: example_record_def cleared_record_values_def)
  have a4: "libfwevt_xml_tag_get_element_by_utf8_name (Some root) ''System'' = (1, Some system)"
    by (simp add: libfwevt_xml_tag_get_element_by_utf8_name_def root_def system_def)
  have a5: "libfwevt_xml_tag_get_element_by_utf8_name (Some system) ''EventID'' =
              (1, Some eventid)"
    by (simp add: libfwevt_xml_tag_get_element_by_utf8_name_def system_def eventid_def)
  have a6: "libfvalue_value_copy_to_32bit (tag_value eventid) = Some 0x1234"
    by (simp add: libfvalue_value_copy_to_32bit_def eventid_def)
  have a7: "libfwevt_xml_tag_get_attribute_by_utf8_name (Some eventid) ''Qualifiers'' =
              (1, Some q)
            \<and> libfvalue_value_copy_to_32bit (tag_value q) = Some 1"
    by (simp add: libfwevt_xml_tag_get_attribute_by_utf8_name_def
        libfvalue_value_copy_to_32bit_def eventid_def q_def)
  have "libevtx_record_values_get_event_identifier (Some example_record) =
          (1, [], Some (push_bit 16 1 OR 0x1234),
           Some (example_record\<lparr> event_identifier_value := tag_value eventid \<rparr>))"
    using get_event_identifier_first_call
      [OF a1 a2 a3 a4 a5 a6, THEN conjunct1, rule_format, OF a7] .
  then show ?thesis by (simp add: eventid_def)
qed

text \<open>
  Once the handle of the EventID value is memoised, the walk is skipped and the local
  \<^verbatim>\<open>eventid_xml_tag\<close> stays NULL, so the query of its attribute \<open>Qualifiers\<close> is an
  error: every later call returns -1.
\<close>

lemma get_event_identifier_memoised_fails:
  assumes "xml_document rv \<noteq> None" and "event_identifier_value rv \<noteq> None"
  shows "fst (libevtx_record_values_get_event_identifier (Some rv)) = -1"
  using assms
  by (auto simp add: libevtx_record_values_get_event_identifier_def event_identifier_walk_def
      libfwevt_xml_tag_get_attribute_by_utf8_name_def split: option.splits)

text \<open>The event level, in contrast, is the same on a second call.\<close>

lemma get_event_level_idempotent:
  assumes "libevtx_record_values_get_event_level (Some rv) = (1, errs, level, Some rv1)"
  shows "libevtx_record_values_get_event_level (Some rv1) = (1, errs, level, Some rv1)"
  using assms
  by (auto simp add: libevtx_record_values_get_event_level_def event_level_walk_def
      libfvalue_value_copy_to_8bit_def
      split: option.splits if_splits sum.splits prod.splits libfvalue_value.splits)

text \<open>
  C3 (the code departs from the claim). The claim: a second call of an accessor returns
  what the first call returned; in particular for the event identifier of a record whose
  \<open>EventID\<close> has a \<open>Qualifiers\<close> attribute. On the example record the first call returns
  1 and yields \<open>0x00011234\<close>; the second call, on the record values as the first call
  left them, returns -1 and has written \<open>0x1234\<close>.
\<close>

theorem get_event_identifier_second_call_fails:
  "libevtx_record_values_get_event_identifier (Some example_record) =
     (1, [], Some 0x00011234,
      Some (example_record\<lparr> event_identifier_value := Some (VALUE_INTEGER 0x1234) \<rparr>))
   \<and> libevtx_record_values_get_event_identifier
       (Some (example_record\<lparr> event_identifier_value := Some (VALUE_INTEGER 0x1234) \<rparr>)) =
     (-1, [(RUNTIME_ERROR_GET_FAILED, ''unable to retrieve Qualifiers XML attribute.'')],
      Some 0x1234,
      Some (example_record\<lparr> event_identifier_value := Some (VALUE_INTEGER 0x1234) \<rparr>))"
  by (simp add: libevtx_record_values_get_event_identifier_def event_identifier_walk_def
      libfvalue_value_copy_to_32bit_def tree_defs example_tree_defs)

text \<open>
  C5 (as stated, false). The claim: the event identifier accessor returns 0 when the root
  has no \<open>System\<close> child. The root of the example has no child at all, the query for
  \<open>System\<close> returns 0, and both accessors return -1.
\<close>

theorem get_event_identifier_absent_is_error:
  "xml_document example_empty_record =
     Some \<lparr> root_xml_tag = Some (XML_Tag ''Event'' None [] []) \<rparr>
   \<and> fst (libfwevt_xml_tag_get_element_by_utf8_name
            (Some (XML_Tag ''Event'' None [] [])) ''System'') = 0
   \<and> fst (libevtx_record_values_get_event_identifier (Some example_empty_record)) = -1
   \<and> fst (libevtx_record_values_get_event_level (Some example_empty_record)) = -1"
  by (simp add: libevtx_record_values_get_event_identifier_def event_identifier_walk_def
      libevtx_record_values_get_event_level_def event_level_walk_def
      tree_defs example_tree_defs)

text \<open>
  C5 (amended). Let the record values hold a decoded XML document with a root element.
  On a first call, the event identifier accessor returns -1 with the error that the
  element cannot be retrieved, and leaves the record values as they were, when the root
  has no \<open>System\<close> child and when \<open>System\<close> has no \<open>EventID\<close> child. Likewise the event
  level accessor returns -1 when \<open>System\<close> or \<open>Level\<close> is absent.
\<close>

theorem get_event_identifier_absent:
  assumes "xml_document rv = Some doc"
    and "root_xml_tag doc = Some root"
  shows "(event_identifier_value rv = None
            \<and> fst (libfwevt_xml_tag_get_element_by_utf8_name (Some root) ''System'') = 0
          \<longrightarrow>
          libevtx_record_values_get_event_identifier (Some rv) =
            (-1, [(RUNTIME_ERROR_GET_FAILED, ''unable to retrieve System XML element.'')],
             None, Some rv))
       \<and> (\<forall>system. event_identifier_value rv = None
            \<and> libfwevt_xml_tag_get_element_by_utf8_name (Some root) ''System'' =
                (1, Some system)
            \<and> fst (libfwevt_xml_tag_get_element_by_utf8_name (Some system) ''EventID'') = 0
          \<longrightarrow>
          libevtx_record_values_get_event_identifier (Some rv) =
            (-1, [(RUNTIME_ERROR_GET_FAILED, ''unable to retrieve EventID XML element.'')],
             None, Some rv))
       \<and> (level_value rv = None
            \<and> fst (libfwevt_xml_tag_get_element_by_utf8_name (Some root) ''System'') = 0
          \<longrightarrow>
          libevtx_record_values_get_event_level (Some rv) =
            (-1, [(RUNTIME_ERROR_GET_FAILED, ''unable to retrieve System XML element.'')],
             None, Some rv))
       \<and> (\<forall>system. level_value rv = None
            \<and> libfwevt_xml_tag_get_element_by_utf8_name (Some root) ''System'' =
                (1, Some system)
            \<and> fst (libfwevt_xml_tag_get_element_by_utf8_name (Some system) ''Level'') = 0
          \<longrightarrow>
          libevtx_record_values_get_event_level (Some rv) =
            (-1, [(RUNTIME_ERROR_GET_FAILED, ''unable to retrieve Level XML element.'')],
             None, Some rv))"
  using assms
  by (auto simp add: libevtx_record_values_get_event_identifier_def event_identifier_walk_def
      libevtx_record_values_get_event_level_def event_level_walk_def
      libfwevt_xml_document_get_root_xml_tag_def split: prod.splits)

theorem get_event_identifier_absent_witness:
  "libevtx_record_values_get_event_identifier (Some example_empty_record) =
     (-1, [(RUNTIME_ERROR_GET_FAILED, ''unable to retrieve System XML element.'')],
      None, Some example_empty_record)
   \<and> libevtx_record_values_get_event_level (Some example_empty_record) =
     (-1, [(RUNTIME_ERROR_GET_FAILED, ''unable to retrieve System XML element.'')],
      None, Some example_empty_record)"
proof -
  have a1: "xml_document example_empty_record =
              Some \<lparr> root_xml_tag = Some (XML_Tag ''Event'' None [] []) \<rparr>"
    by (simp add: example_empty_record_def)
  have a2: "root_xml_tag \<lparr> root_xml_tag = Some (XML_Tag ''Event'' None [] []) \<rparr> =
              Some (XML_Tag ''Event'' None [] [])"
    by simp
  have b1: "event_identifier_value example_empty_record = None
            \<and> fst (libfwevt_xml_tag_get_element_by_utf8_name
                     (Some (XML_Tag ''Event'' None [] [])) ''System'') = 0"
    by (simp add: example_empty_record_def cleared_record_values_def
        libfwevt_xml_tag_get_element_by_utf8_name_def)
  have b2: "level_value example_empty_record = None
            \<and> fst (libfwevt_xml_tag_get_element_by_utf8_name
                     (Some (XML_Tag ''Event'' None [] [])) ''System'') = 0"
    by (simp add: example_empty_record_def cleared_record_values_def
        libfwevt_xml_tag_get_element_by_utf8_name_def)
  note th = get_event_identifier_absent [OF a1 a2]
  show ?thesis
    using th [THEN conjunct1, rule_format, OF b1]
      th [THEN conjunct2, THEN conjunct2, THEN conjunct1, rule_format, OF b2]
    by (rule conjI)
qed

section \<open>The number of strings: properties\<close>

lemma number_of_strings_loop_end:
  "number_of_strings_loop tag n n c = (1, [], c)"
  by (subst number_of_strings_loop.simps) simp

lemma number_of_strings_loop_step:
  assumes "tag_elements t = pre @ e # rest"
  shows "number_of_strings_loop (Some t) (int (length (tag_elements t))) (int (length pre)) c =
     (if tag_name e = ''Data'' then
        (if int (length pre) \<noteq> c then
           (-1, [(RUNTIME_ERROR_UNSUPPORTED_VALUE,
                  ''unsupported non-contiguous Data elements.'')], c)
         else number_of_strings_loop (Some t) (int (length (tag_elements t)))
                (int (length pre) + 1) (c + 1))
      else number_of_strings_loop (Some t) (int (length (tag_elements t)))
             (int (length pre) + 1) c)"
proof -
  have nth: "tag_elements t ! length pre = e"
    using assms by simp
  have lt: "int (length pre) < int (length (tag_elements t))"
    using assms by simp
  have name: "(length (tag_name e) = 4 \<and> take 4 (tag_name e) = ''Data'') \<longleftrightarrow> tag_name e = ''Data''"
    by auto
  show ?thesis
    using nth lt name
    by (subst number_of_strings_loop.simps)
      (simp add: libfwevt_xml_tag_get_element_by_index_def
        libfwevt_xml_tag_get_utf8_name_size_def libfwevt_xml_tag_get_utf8_name_def
        libcstring_narrow_string_compare_def)
qed

lemma number_of_strings_loop_no_data:
  assumes "tag_elements t = pre @ rest"
    and "\<forall>r \<in> set rest. tag_name r \<noteq> ''Data''"
  shows "number_of_strings_loop (Some t) (int (length (tag_elements t))) (int (length pre)) c =
     (1, [], c)"
  using assms
proof (induction rest arbitrary: pre)
  case Nil
  then show ?case by (simp add: number_of_strings_loop_end)
next
  case (Cons r rest)
  have split: "tag_elements t = (pre @ [r]) @ rest"
    using Cons.prems(1) by simp
  have "number_of_strings_loop (Some t) (int (length (tag_elements t)))
          (int (length pre)) c =
        number_of_strings_loop (Some t) (int (length (tag_elements t)))
          (int (length pre) + 1) c"
    using number_of_strings_loop_step [OF Cons.prems(1), of c] Cons.prems(2) by simp
  also have "\<dots> = number_of_strings_loop (Some t) (int (length (tag_elements t)))
          (int (length (pre @ [r]))) c"
    by (simp add: add.commute)
  also have "\<dots> = (1, [], c)"
    using Cons.IH [OF split] Cons.prems(2) by simp
  finally show ?case .
qed

lemma number_of_strings_loop_data_prefix:
  assumes "tag_elements t = pre @ ds @ rest"
    and "\<forall>d \<in> set ds. tag_name d = ''Data''"
  shows "number_of_strings_loop (Some t) (int (length (tag_elements t)))
           (int (length pre)) (int (length pre)) =
         number_of_strings_loop (Some t) (int (length (tag_elements t)))
           (int (length pre + length ds)) (int (length pre + length ds))"
  using assms
proof (induction ds arbitrary: pre)
  case Nil
  then show ?case by simp
next
  case (Cons d ds)
  have here: "tag_elements t = pre @ d # (ds @ rest)"
    using Cons.prems(1) by simp
  have split: "tag_elements t = (pre @ [d]) @ ds @ rest"
    using Cons.prems(1) by simp
  have "number_of_strings_loop (Some t) (int (length (tag_elements t)))
          (int (length pre)) (int (length pre)) =
        number_of_strings_loop (Some t) (int (length (tag_elements t)))
          (int (length pre) + 1) (int (length pre) + 1)"
    using number_of_strings_loop_step [OF here, of "int (length pre)"] Cons.prems(2) by simp
  also have "\<dots> = number_of_strings_loop (Some t) (int (length (tag_elements t)))
          (int (length (pre @ [d]))) (int (length (pre @ [d])))"
    by (simp add: add.commute)
  also have "\<dots> = number_of_strings_loop (Some t) (int (length (tag_elements t)))
          (int (length (pre @ [d]) + length ds)) (int (length (pre @ [d]) + length ds))"
    using Cons.IH [OF split] Cons.prems(2) by simp
  finally show ?case by simp
qed

lemma number_of_strings_loop_late_data:
  assumes "tag_elements t = pre @ rest"
    and "c < int (length pre)"
    and "\<exists>r \<in> set rest. tag_name r = ''Data''"
  shows "number_of_strings_loop (Some t) (int (length (tag_elements t))) (int (length pre)) c =
     (-1, [(RUNTIME_ERROR_UNSUPPORTED_VALUE, ''unsupported non-contiguous Data elements.'')], c)"
  using assms
proof (induction rest arbitrary: pre)
  case Nil
  then show ?case by simp
next
  case (Cons r rest)
  show ?case
  proof (cases "tag_name r = ''Data''")
    case True
    then show ?thesis
      using number_of_strings_loop_step [OF Cons.prems(1), of c] Cons.prems(2) by simp
  next
    case False
    have split: "tag_elements t = (pre @ [r]) @ rest"
      using Cons.prems(1) by simp
    have later: "\<exists>x \<in> set rest. tag_name x = ''Data''"
      using Cons.prems(3) False by auto
    have less: "c < int (length (pre @ [r]))"
      using Cons.prems(2) by simp
    have "number_of_strings_loop (Some t) (int (length (tag_elements t)))
            (int (length pre)) c =
          number_of_strings_loop (Some t) (int (length (tag_elements t)))
            (int (length (pre @ [r]))) c"
      using number_of_strings_loop_step [OF Cons.prems(1), of c] False
      by (simp add: add.commute)
    then show ?thesis
      using Cons.IH [OF split less later] by simp
  qed
qed

lemma number_of_strings_loop_contiguous:
  assumes "tag_elements t = ds @ rest"
    and "\<forall>d \<in> set ds. tag_name d = ''Data''"
    and "\<forall>r \<in> set rest. tag_name r \<noteq> ''Data''"
  shows "number_of_strings_loop (Some t) (int (length (tag_elements t))) 0 0 =
     (1, [], int (length ds))"
proof -
  have a: "tag_elements t = [] @ ds @ rest" using assms(1) by simp
  have "number_of_strings_loop (Some t) (int (length (tag_elements t))) 0 0 =
        number_of_strings_loop (Some t) (int (length (tag_elements t)))
          (int (length ds)) (int (length ds))"
    using number_of_strings_loop_data_prefix [OF a assms(2)] by simp
  also have "\<dots> = (1, [], int (length ds))"
    using number_of_strings_loop_no_data [OF assms(1) assms(3)] .
  finally show ?thesis .
qed

lemma number_of_strings_loop_interleaved:
  assumes j: "j < length (tag_elements t)"
    and data: "tag_name (tag_elements t ! j) = ''Data''"
    and count: "j \<noteq> length (filter (\<lambda>e. tag_name e = ''Data'') (take j (tag_elements t)))"
  shows "\<exists>c. number_of_strings_loop (Some t) (int (length (tag_elements t))) 0 0 =
     (-1, [(RUNTIME_ERROR_UNSUPPORTED_VALUE, ''unsupported non-contiguous Data elements.'')], c)"
proof -
  define P where "P = (\<lambda>e. tag_name e = ''Data'')"
  define es where "es = tag_elements t"
  define ds where "ds = takeWhile P es"
  define rest where "rest = dropWhile P es"
  have es: "es = ds @ rest" by (simp add: ds_def rest_def)
  have ds_data: "\<forall>d \<in> set ds. tag_name d = ''Data''"
    using set_takeWhileD [of _ P es] by (auto simp add: ds_def P_def)
  have "\<not> j < length ds"
  proof
    assume "j < length ds"
    then have "take j es = take j ds" using es by simp
    then have "\<forall>x \<in> set (take j es). P x"
      using ds_data by (auto simp add: P_def dest: in_set_takeD)
    then have "filter P (take j es) = take j es" by simp
    then have "length (filter P (take j es)) = j"
      using j by (simp add: es_def)
    then show False using count by (simp add: P_def es_def)
  qed
  then have ge: "length ds \<le> j" by simp
  then have in_rest: "es ! j = rest ! (j - length ds)" and lt: "j - length ds < length rest"
    using es j by (simp_all add: nth_append es_def [symmetric])
  from lt obtain x rest' where rest: "rest = x # rest'"
    by (cases rest) auto
  have x: "\<not> P x"
    using rest hd_dropWhile [of P es] by (auto simp add: rest_def)
  have "P (rest ! (j - length ds))"
    using data in_rest by (simp add: P_def es_def)
  then have "j - length ds \<noteq> 0" using x rest by (cases "j - length ds") auto
  then have later: "\<exists>r \<in> set rest'. tag_name r = ''Data''"
    using \<open>P (rest ! (j - length ds))\<close> lt rest
    by (cases "j - length ds") (auto simp add: P_def)
  have a: "tag_elements t = [] @ ds @ rest" using es by (simp add: es_def)
  have b: "tag_elements t = ds @ x # rest'" using es rest by (simp add: es_def)
  have c: "tag_elements t = (ds @ [x]) @ rest'" using b by simp
  have "number_of_strings_loop (Some t) (int (length (tag_elements t))) 0 0 =
        number_of_strings_loop (Some t) (int (length (tag_elements t)))
          (int (length ds)) (int (length ds))"
    using number_of_strings_loop_data_prefix [OF a ds_data] by simp
  also have "\<dots> = number_of_strings_loop (Some t) (int (length (tag_elements t)))
          (int (length (ds @ [x]))) (int (length ds))"
    using number_of_strings_loop_step [OF b, of "int (length ds)"] x
    by (simp add: P_def add.commute)
  also have "\<dots> = (-1, [(RUNTIME_ERROR_UNSUPPORTED_VALUE,
                 ''unsupported non-contiguous Data elements.'')], int (length ds))"
    by (rule number_of_strings_loop_late_data [OF c _ later]) simp
  finally show ?thesis by blast
qed

text \<open>
  With \<open>EventData\<close> as the event data tag, resolved by this call or memoised by an
  earlier one, the accessor returns what the loop over its elements returns.
\<close>

lemma number_of_strings_event_data_resolved:
  assumes "xml_document rv = Some doc"
    and "root_xml_tag doc = Some root"
    and "libfwevt_xml_tag_get_element_by_utf8_name (Some root) ''EventData'' = (1, Some t)"
    and "event_data_xml_tag rv = None
         \<or> (event_data_xml_tag rv = Some t \<and> event_data_type rv = EVENT_DATA_TYPE_EVENT_DATA)"
  shows "libevtx_record_values_get_number_of_strings (Some rv) (Some n0) =
     (case number_of_strings_loop (Some t) (int (length (tag_elements t))) 0 0 of
        (r, errs, n) \<Rightarrow>
          (r, errs, Some n,
           Some (rv\<lparr> event_data_xml_tag := Some t,
                      event_data_type := EVENT_DATA_TYPE_EVENT_DATA \<rparr>)))"
  using assms
  by (auto simp add: libevtx_record_values_get_number_of_strings_def
      libevtx_record_values_get_event_data_xml_tag_def
      libfwevt_xml_document_get_root_xml_tag_def libfwevt_xml_tag_get_number_of_elements_def
      EVENT_DATA_TYPE_EVENT_DATA_def EVENT_DATA_TYPE_USER_DATA_def Let_def split: prod.splits)

text \<open>
  C6. Let the record values hold a decoded XML document whose root has the child
  \<open>EventData\<close>, the event data tag being unresolved yet or memoised as this tag. If the
  elements of \<open>EventData\<close> are a run of elements named \<open>Data\<close> followed by elements of
  other names only, the accessor returns 1 and reports the length of the run. If some
  element named \<open>Data\<close> stands at an index that differs from the number of \<open>Data\<close>
  elements before it, the accessor returns -1 with the error of non-contiguous \<open>Data\<close>
  elements.
\<close>

theorem get_number_of_strings_event_data:
  assumes "xml_document rv = Some doc"
    and "root_xml_tag doc = Some root"
    and "libfwevt_xml_tag_get_element_by_utf8_name (Some root) ''EventData'' = (1, Some t)"
    and "event_data_xml_tag rv = None
         \<or> (event_data_xml_tag rv = Some t \<and> event_data_type rv = EVENT_DATA_TYPE_EVENT_DATA)"
  shows "(\<forall>ds rest. tag_elements t = ds @ rest
              \<and> (\<forall>d \<in> set ds. tag_name d = ''Data'')
              \<and> (\<forall>r \<in> set rest. tag_name r \<noteq> ''Data'') \<longrightarrow>
            libevtx_record_values_get_number_of_strings (Some rv) (Some n0) =
              (1, [], Some (int (length ds)),
               Some (rv\<lparr> event_data_xml_tag := Some t,
                          event_data_type := EVENT_DATA_TYPE_EVENT_DATA \<rparr>)))
       \<and> ((\<exists>j < length (tag_elements t). tag_name (tag_elements t ! j) = ''Data''
              \<and> j \<noteq> length (filter (\<lambda>e. tag_name e = ''Data'') (take j (tag_elements t))))
            \<longrightarrow>
            (\<exists>c. libevtx_record_values_get_number_of_strings (Some rv) (Some n0) =
              (-1, [(RUNTIME_ERROR_UNSUPPORTED_VALUE,
                     ''unsupported non-contiguous Data elements.'')], Some c,
               Some (rv\<lparr> event_data_xml_tag := Some t,
                          event_data_type := EVENT_DATA_TYPE_EVENT_DATA \<rparr>))))"
proof (intro conjI allI impI)
  fix ds rest
  assume "tag_elements t = ds @ rest
              \<and> (\<forall>d \<in> set ds. tag_name d = ''Data'')
              \<and> (\<forall>r \<in> set rest. tag_name r \<noteq> ''Data'')"
  then have "number_of_strings_loop (Some t) (int (length (tag_elements t))) 0 0 =
     (1, [], int (length ds))"
    using number_of_strings_loop_contiguous [of t ds rest] by blast
  then show "libevtx_record_values_get_number_of_strings (Some rv) (Some n0) =
              (1, [], Some (int (length ds)),
               Some (rv\<lparr> event_data_xml_tag := Some t,
                          event_data_type := EVENT_DATA_TYPE_EVENT_DATA \<rparr>))"
    using number_of_strings_event_data_resolved [OF assms] by simp
next
  assume "\<exists>j < length (tag_elements t). tag_name (tag_elements t ! j) = ''Data''
              \<and> j \<noteq> length (filter (\<lambda>e. tag_name e = ''Data'') (take j (tag_elements t)))"
  then obtain c where "number_of_strings_loop (Some t) (int (length (tag_elements t))) 0 0 =
     (-1, [(RUNTIME_ERROR_UNSUPPORTED_VALUE, ''unsupported non-contiguous Data elements.'')], c)"
    using number_of_strings_loop_interleaved [of _ t] by blast
  then show "\<exists>c. libevtx_record_values_get_number_of_strings (Some rv) (Some n0) =
              (-1, [(RUNTIME_ERROR_UNSUPPORTED_VALUE,
                     ''unsupported non-contiguous Data elements.'')], Some c,
               Some (rv\<lparr> event_data_xml_tag := Some t,
                          event_data_type := EVENT_DATA_TYPE_EVENT_DATA \<rparr>))"
    using number_of_strings_event_data_resolved [OF assms] by simp
qed

lemma example_event_data_record_document:
  "xml_document (example_event_data_record names) =
     Some \<lparr> root_xml_tag = Some (XML_Tag ''Event'' None [] [example_event_data names]) \<rparr>"
  by (simp add: example_event_data_record_def)

lemma example_event_data_found:
  "libfwevt_xml_tag_get_element_by_utf8_name
     (Some (XML_Tag ''Event'' None [] [example_event_data names])) ''EventData'' =
   (1, Some (example_event_data names))"
  by (simp add: libfwevt_xml_tag_get_element_by_utf8_name_def example_event_data_def)

lemma example_event_data_unresolved:
  "event_data_xml_tag (example_event_data_record names) = None
   \<or> (event_data_xml_tag (example_event_data_record names) = Some (example_event_data names)
      \<and> event_data_type (example_event_data_record names) = EVENT_DATA_TYPE_EVENT_DATA)"
  by (simp add: example_event_data_record_def cleared_record_values_def)

theorem get_number_of_strings_event_data_witness:
  "libevtx_record_values_get_number_of_strings
     (Some (example_event_data_record [''Data'', ''Data'', ''Foo''])) (Some 7) =
     (1, [], Some 2,
      Some ((example_event_data_record [''Data'', ''Data'', ''Foo''])
        \<lparr> event_data_xml_tag := Some (example_event_data [''Data'', ''Data'', ''Foo'']),
          event_data_type := EVENT_DATA_TYPE_EVENT_DATA \<rparr>))
   \<and> (\<exists>c. libevtx_record_values_get_number_of_strings
          (Some (example_event_data_record [''Data'', ''Data'', ''Foo'', ''Data''])) (Some 7) =
        (-1, [(RUNTIME_ERROR_UNSUPPORTED_VALUE,
               ''unsupported non-contiguous Data elements.'')], Some c,
         Some ((example_event_data_record [''Data'', ''Data'', ''Foo'', ''Data''])
           \<lparr> event_data_xml_tag :=
               Some (example_event_data [''Data'', ''Data'', ''Foo'', ''Data'']),
             event_data_type := EVENT_DATA_TYPE_EVENT_DATA \<rparr>)))"
proof (rule conjI)
  have prefix: "tag_elements (example_event_data [''Data'', ''Data'', ''Foo'']) =
          [XML_Tag ''Data'' None [] [], XML_Tag ''Data'' None [] []]
            @ [XML_Tag ''Foo'' None [] []]
        \<and> (\<forall>d \<in> set [XML_Tag ''Data'' None [] [], XML_Tag ''Data'' None [] []].
              tag_name d = ''Data'')
        \<and> (\<forall>r \<in> set [XML_Tag ''Foo'' None [] []]. tag_name r \<noteq> ''Data'')"
    by (simp add: example_event_data_def)
  have "libevtx_record_values_get_number_of_strings
          (Some (example_event_data_record [''Data'', ''Data'', ''Foo''])) (Some 7) =
        (1, [],
         Some (int (length [XML_Tag ''Data'' None [] [], XML_Tag ''Data'' None [] []])),
         Some ((example_event_data_record [''Data'', ''Data'', ''Foo''])
           \<lparr> event_data_xml_tag := Some (example_event_data [''Data'', ''Data'', ''Foo'']),
             event_data_type := EVENT_DATA_TYPE_EVENT_DATA \<rparr>))"
    using get_number_of_strings_event_data
      [OF example_event_data_record_document _ example_event_data_found
        example_event_data_unresolved, THEN conjunct1, rule_format, OF _ prefix]
    by simp
  then show "libevtx_record_values_get_number_of_strings
     (Some (example_event_data_record [''Data'', ''Data'', ''Foo''])) (Some 7) =
     (1, [], Some 2,
      Some ((example_event_data_record [''Data'', ''Data'', ''Foo''])
        \<lparr> event_data_xml_tag := Some (example_event_data [''Data'', ''Data'', ''Foo'']),
          event_data_type := EVENT_DATA_TYPE_EVENT_DATA \<rparr>))"
    by simp
next
  have "(3 :: nat) < length (tag_elements (example_event_data [''Data'', ''Data'', ''Foo'', ''Data'']))
        \<and> tag_name (tag_elements (example_event_data [''Data'', ''Data'', ''Foo'', ''Data'']) ! 3)
            = ''Data''
        \<and> 3 \<noteq> length (filter (\<lambda>e. tag_name e = ''Data'')
                 (take 3 (tag_elements (example_event_data [''Data'', ''Data'', ''Foo'', ''Data'']))))"
    by (simp add: example_event_data_def numeral_3_eq_3)
  then have interleaved:
    "\<exists>j < length (tag_elements (example_event_data [''Data'', ''Data'', ''Foo'', ''Data''])).
       tag_name (tag_elements (example_event_data [''Data'', ''Data'', ''Foo'', ''Data'']) ! j)
         = ''Data''
       \<and> j \<noteq> length (filter (\<lambda>e. tag_name e = ''Data'')
                (take j (tag_elements (example_event_data [''Data'', ''Data'', ''Foo'', ''Data'']))))"
    by blast
  show "\<exists>c. libevtx_record_values_get_number_of_strings
          (Some (example_event_data_record [''Data'', ''Data'', ''Foo'', ''Data''])) (Some 7) =
        (-1, [(RUNTIME_ERROR_UNSUPPORTED_VALUE,
               ''unsupported non-contiguous Data elements.'')], Some c,
         Some ((example_event_data_record [''Data'', ''Data'', ''Foo'', ''Data''])
           \<lparr> event_data_xml_tag :=
               Some (example_event_data [''Data'', ''Data'', ''Foo'', ''Data'']),
             event_data_type := EVENT_DATA_TYPE_EVENT_DATA \<rparr>))"
    using get_number_of_strings_event_data
      [OF example_event_data_record_document _ example_event_data_found
        example_event_data_unresolved, THEN conjunct2, rule_format, OF _ interleaved]
    by simp
qed

text \<open>
  C10. Let the record values hold a decoded XML document whose root has neither a child
  \<open>EventData\<close> nor a child \<open>UserData\<close>, the event data tag being unresolved. Then the
  accessor returns 1 and reports 0 strings, and the record values are as before.
\<close>

theorem get_number_of_strings_without_event_data:
  assumes "xml_document rv = Some doc"
    and "root_xml_tag doc = Some root"
    and "fst (libfwevt_xml_tag_get_element_by_utf8_name (Some root) ''EventData'') = 0"
    and "fst (libfwevt_xml_tag_get_element_by_utf8_name (Some root) ''UserData'') = 0"
    and "event_data_xml_tag rv = None"
  shows "libevtx_record_values_get_number_of_strings (Some rv) (Some n0) = (1, [], Some 0, Some rv)"
proof -
  have "libevtx_record_values_get_event_data_xml_tag (Some rv) None (event_data_type rv) =
          (0, [], None, event_data_type rv)"
    using assms(1-4)
    by (auto simp add: libevtx_record_values_get_event_data_xml_tag_def
        libfwevt_xml_document_get_root_xml_tag_def split: prod.splits)
  then show ?thesis
    using assms(1,5)
    by (simp add: libevtx_record_values_get_number_of_strings_def)
qed

theorem get_number_of_strings_without_event_data_witness:
  "libevtx_record_values_get_number_of_strings (Some example_empty_record) (Some 7) =
     (1, [], Some 0, Some example_empty_record)"
proof (rule get_number_of_strings_without_event_data)
  show "xml_document example_empty_record =
          Some \<lparr> root_xml_tag = Some (XML_Tag ''Event'' None [] []) \<rparr>"
    by (simp add: example_empty_record_def)
  show "root_xml_tag \<lparr> root_xml_tag = Some (XML_Tag ''Event'' None [] []) \<rparr> =
          Some (XML_Tag ''Event'' None [] [])"
    by simp
  show "fst (libfwevt_xml_tag_get_element_by_utf8_name
               (Some (XML_Tag ''Event'' None [] [])) ''EventData'') = 0"
    by (simp add: libfwevt_xml_tag_get_element_by_utf8_name_def)
  show "fst (libfwevt_xml_tag_get_element_by_utf8_name
               (Some (XML_Tag ''Event'' None [] [])) ''UserData'') = 0"
    by (simp add: libfwevt_xml_tag_get_element_by_utf8_name_def)
  show "event_data_xml_tag example_empty_record = None"
    by (simp add: example_empty_record_def cleared_record_values_def)
qed

section \<open>Cloning: properties\<close>

text \<open>
  The clone of existing record values into an empty destination is equal to the source
  in every field: \<^verbatim>\<open>memory_copy\<close> copies them all, and only the XML document is replaced
  by a clone of the document of the source.
\<close>

lemma clone_copies_every_field:
  "libevtx_record_values_clone (Some None) (Some src) = (1, [], Some (Some src))"
  by (cases "xml_document src")
    (simp_all add: libevtx_record_values_clone_def libfwevt_xml_document_clone_def Let_def)

text \<open>
  C7 (the code departs from the claim). The claim: the memoised handles of the
  destination are NULL after cloning. The source here is the example record after its
  first call of the event identifier accessor, so it holds the handle of the EventID
  value; the destination holds the same handle, not NULL.
\<close>

theorem clone_keeps_memoised_handle:
  "libevtx_record_values_clone (Some None)
     (Some (example_record\<lparr> event_identifier_value := Some (VALUE_INTEGER 0x1234) \<rparr>)) =
     (1, [], Some (Some (example_record
        \<lparr> event_identifier_value := Some (VALUE_INTEGER 0x1234) \<rparr>)))
   \<and> event_identifier_value
       (example_record\<lparr> event_identifier_value := Some (VALUE_INTEGER 0x1234) \<rparr>) \<noteq> None"
  by (simp add: libevtx_record_values_clone_def libfwevt_xml_document_clone_def Let_def
      example_record_def)

end
